theory Spec2Isabelle
  imports Main
begin

section \<open>JavaScript strings\<close>

text \<open>
  Strings are lists of characters; a character stands for the UTF-16 code unit of the
  same number, so the strings are those over U+0000 to U+00FF. On these
  \<open>toLowerCase\<close> adds 0x20 to the letters A to Z (U+0041 to U+005A) and to the
  capital letters U+00C0 to U+00DE other than the multiplication sign U+00D7, and
  leaves every other character alone. \<open>trim\<close> strips white space and line
  terminators from both ends: tab, line feed, vertical tab, form feed, carriage return,
  space and the no-break space U+00A0.
\<close>

definition lower_char :: "char \<Rightarrow> char" where
  "lower_char c =
     (let n = (of_char c :: nat)
      in if (0x41 \<le> n \<and> n \<le> 0x5A) \<or> (0xC0 \<le> n \<and> n \<le> 0xDE \<and> n \<noteq> 0xD7)
         then char_of (n + 0x20)
         else c)"

definition toLowerCase :: "string \<Rightarrow> string" where
  "toLowerCase s = map lower_char s"

definition is_ws :: "char \<Rightarrow> bool" where
  "is_ws c = ((of_char c :: nat) \<in> set [0x09, 0x0A, 0x0B, 0x0C, 0x0D, 0x20, 0xA0])"

definition trim :: "string \<Rightarrow> string" where
  "trim s = rev (dropWhile is_ws (rev (dropWhile is_ws s)))"

fun startsWith :: "string \<Rightarrow> string \<Rightarrow> bool" where
  "startsWith s [] = True"
| "startsWith [] (p # ps) = False"
| "startsWith (c # cs) (p # ps) = (c = p \<and> startsWith cs ps)"

text \<open>\<open>s.includes(q)\<close>: \<open>q\<close> occurs in \<open>s\<close> as a contiguous substring.\<close>

fun js_includes :: "string \<Rightarrow> string \<Rightarrow> bool" where
  "js_includes [] q = (q = [])"
| "js_includes (c # cs) q = (startsWith (c # cs) q \<or> js_includes cs q)"

text \<open>
  \<open>s.split(sep)\<close> for a separator of one character: the pieces between the occurrences
  of the separator, so one piece more than there are separators.
\<close>

fun js_split :: "char \<Rightarrow> string \<Rightarrow> string list" where
  "js_split sep [] = [[]]"
| "js_split sep (c # cs) =
     (if c = sep then [] # js_split sep cs
      else (case js_split sep cs of
              [] \<Rightarrow> [[c]]
            | p # ps \<Rightarrow> (c # p) # ps))"

text \<open>
  \<open>x || d\<close> on an optional string: the default replaces an absent value and the empty
  string, which is falsy.
\<close>

definition or_else :: "string option \<Rightarrow> string \<Rightarrow> string" where
  "or_else x d = (case x of None \<Rightarrow> d | Some v \<Rightarrow> if v = [] then d else v)"

text \<open>\<open>x || []\<close> on an optional array: every array is truthy.\<close>

definition or_empty :: "string list option \<Rightarrow> string list" where
  "or_empty x = (case x of None \<Rightarrow> [] | Some v \<Rightarrow> v)"

text \<open>An absent value inside a template literal prints as \<open>undefined\<close>.\<close>

definition template :: "string option \<Rightarrow> string" where
  "template x = (case x of None \<Rightarrow> ''undefined'' | Some v \<Rightarrow> v)"


section \<open>Content records and the controllers that hold them\<close>

text \<open>
  The records the controllers load from JSON. One record type covers the eight content
  kinds; a property a record does not carry is \<open>None\<close>. The identifier and the title are
  present strings, as the data model has them.
\<close>

record content =
  c_id :: string
  c_title :: string
  c_filename :: "string option"
  c_description :: "string option"
  c_excerpt :: "string option"
  c_location :: "string option"
  c_tags :: "string list option"
  c_genres :: "string list option"
  c_technologies :: "string list option"
  c_author :: "string option"
  c_director :: "string option"
  c_artist :: "string option"
  c_creator :: "string option"
  c_collection :: "string option"

text \<open>
  A controller is present or not on \<open>window\<close>. Its collection is \<open>null\<close> until loaded
  (\<open>None\<close>); once loaded it is an object keyed by id, read only through
  \<open>Object.values\<close>, so it is kept as the list of its values in that order.
\<close>

type_synonym controller = "content list option"

record window =
  Router :: bool
  UniversalContentLightbox :: bool
  AboutController :: bool
  PhotographyController :: "controller option"
  WritingsController :: "controller option"
  MusicController :: "controller option"
  ProjectsController :: "controller option"
  CuratedWritingsController :: "controller option"
  CuratedCinemaController :: "controller option"
  CuratedMusicController :: "controller option"
  CuratedMiscController :: "controller option"

text \<open>\<open>window.C && window.C.collection\<close>, then \<open>Object.values\<close> of it.\<close>

definition loaded :: "controller option \<Rightarrow> content list option" where
  "loaded c = (case c of None \<Rightarrow> None | Some coll \<Rightarrow> coll)"


section \<open>The search system\<close>

record search_entry =
  etype :: string
  eid :: string
  title :: string
  description :: string
  author :: "string option"
  director :: "string option"
  creator :: "string option"
  artist :: "string option"
  location :: "string option"
  tags :: "string list"
  contentType :: string
  route :: string
  data :: content

text \<open>A search result is the entry with its score, \<open>{ ...item, score }\<close>.\<close>

record search_result =
  item :: search_entry
  score :: int

text \<open>
  The state of \<open>SearchSystem\<close>. \<open>overlay\<close> says whether the overlay element was found.
  The calls that leave the search system are logged in order: \<open>navigated\<close> holds the
  routes handed to \<open>Router.navigateTo\<close>, \<open>lightboxTimers\<close> the results whose
  \<open>openResultInLightbox\<close> is scheduled.
\<close>

record search_state =
  searchIndex :: "search_entry list"
  isIndexed :: bool
  isSearchOpen :: bool
  currentResults :: "search_result list"
  selectedResultIndex :: int
  overlay :: bool
  navigated :: "string list"
  lightboxTimers :: "search_result list"

subsection \<open>buildSearchIndex\<close>

text \<open>The object pushed for each record, one rule per content kind.\<close>

definition photo_entry :: "content \<Rightarrow> search_entry" where
  "photo_entry photo =
     \<lparr>etype = ''photo'', eid = c_id photo, title = c_title photo,
      description = or_else (c_description photo) [],
      author = None, director = None, creator = None, artist = None,
      location = Some (or_else (c_location photo) []),
      tags = or_empty (c_tags photo),
      contentType = ''Personal Photography'',
      route = ''/photography/'' @ template (c_collection photo),
      data = photo\<rparr>"

definition writing_entry :: "content \<Rightarrow> search_entry" where
  "writing_entry writing =
     \<lparr>etype = ''writing'', eid = or_else (c_filename writing) (c_title writing),
      title = c_title writing,
      description = or_else (c_excerpt writing) [],
      author = None, director = None, creator = None, artist = None, location = None,
      tags = or_empty (c_tags writing),
      contentType = ''Personal Writings'',
      route = ''/works/personal/writings'',
      data = writing\<rparr>"

definition music_entry :: "content \<Rightarrow> search_entry" where
  "music_entry track =
     \<lparr>etype = ''music'', eid = c_id track, title = c_title track,
      description = or_else (c_description track) [],
      author = None, director = None, creator = None, artist = None, location = None,
      tags = or_empty (c_genres track),
      contentType = ''Personal Music'',
      route = ''/works/personal/music'',
      data = track\<rparr>"

definition project_entry :: "content \<Rightarrow> search_entry" where
  "project_entry project =
     \<lparr>etype = ''project'', eid = c_id project, title = c_title project,
      description = or_else (c_description project) [],
      author = None, director = None, creator = None, artist = None, location = None,
      tags = or_empty (c_technologies project),
      contentType = ''Personal Projects'',
      route = ''/works/personal/projects'',
      data = project\<rparr>"

definition curated_writing_entry :: "content \<Rightarrow> search_entry" where
  "curated_writing_entry writing =
     \<lparr>etype = ''curated_writing'', eid = c_id writing, title = c_title writing,
      description = or_else (c_excerpt writing) [],
      author = Some (or_else (c_author writing) []),
      director = None, creator = None, artist = None, location = None,
      tags = or_empty (c_tags writing),
      contentType = ''Curated Writings'',
      route = ''/works/curated/writings/'' @ template (c_collection writing),
      data = writing\<rparr>"

definition curated_cinema_entry :: "content \<Rightarrow> search_entry" where
  "curated_cinema_entry x =
     \<lparr>etype = ''curated_cinema'', eid = c_id x, title = c_title x,
      description = or_else (c_excerpt x) [],
      author = None,
      director = Some (or_else (c_director x) []),
      creator = None, artist = None, location = None,
      tags = or_empty (c_genres x),
      contentType = ''Curated Cinema'',
      route = ''/works/curated/cinema/'' @ template (c_collection x),
      data = x\<rparr>"

definition curated_music_entry :: "content \<Rightarrow> search_entry" where
  "curated_music_entry x =
     \<lparr>etype = ''curated_music'', eid = c_id x, title = c_title x,
      description = or_else (c_excerpt x) [],
      author = None, director = None, creator = None,
      artist = Some (or_else (c_artist x) []),
      location = None,
      tags = or_empty (c_genres x),
      contentType = ''Curated Music'',
      route = ''/works/curated/music/'' @ template (c_collection x),
      data = x\<rparr>"

definition curated_misc_entry :: "content \<Rightarrow> search_entry" where
  "curated_misc_entry x =
     \<lparr>etype = ''curated_misc'', eid = c_id x, title = c_title x,
      description = or_else (c_excerpt x) [],
      author = None, director = None,
      creator = Some (or_else (c_creator x) []),
      artist = None, location = None,
      tags = or_empty (c_tags x),
      contentType = ''Curated Content'',
      route = ''/works/curated/misc/'' @ template (c_collection x),
      data = x\<rparr>"

text \<open>
  One \<open>if (window.C && window.C.coll) Object.values(...).forEach(x => index.push(...))\<close>
  block: a missing controller or collection leaves the index as it is.
\<close>

definition index_collection ::
  "controller option \<Rightarrow> (content \<Rightarrow> search_entry) \<Rightarrow> search_entry list \<Rightarrow> search_entry list" where
  "index_collection c mk idx =
     (case loaded c of
        None \<Rightarrow> idx
      | Some vals \<Rightarrow> fold (\<lambda>x acc. acc @ [mk x]) vals idx)"

definition buildSearchIndex :: "window \<Rightarrow> search_state \<Rightarrow> search_state" where
  "buildSearchIndex w s =
     (let idx = [];
          idx = index_collection (PhotographyController w) photo_entry idx;
          idx = index_collection (WritingsController w) writing_entry idx;
          idx = index_collection (MusicController w) music_entry idx;
          idx = index_collection (ProjectsController w) project_entry idx;
          idx = index_collection (CuratedWritingsController w) curated_writing_entry idx;
          idx = index_collection (CuratedCinemaController w) curated_cinema_entry idx;
          idx = index_collection (CuratedMusicController w) curated_music_entry idx;
          idx = index_collection (CuratedMiscController w) curated_misc_entry idx
      in s\<lparr>searchIndex := idx, isIndexed := True\<rparr>)"

text \<open>
  The records a controller adds to the index: none when the controller or its
  collection is missing.
\<close>

definition records_of :: "controller option \<Rightarrow> content list" where
  "records_of c = (case loaded c of None \<Rightarrow> [] | Some vals \<Rightarrow> vals)"

subsection \<open>search\<close>

text \<open>\<open>item.f && item.f.toLowerCase().includes(q)\<close> on an optional field.\<close>

definition field_matches :: "string option \<Rightarrow> string \<Rightarrow> bool" where
  "field_matches f q =
     (case f of None \<Rightarrow> False | Some v \<Rightarrow> v \<noteq> [] \<and> js_includes (toLowerCase v) q)"

text \<open>The body of the \<open>forEach\<close> over the index, up to the test \<open>score > 0\<close>.\<close>

definition scoreItem :: "search_entry \<Rightarrow> string \<Rightarrow> int" where
  "scoreItem it normalizedQuery =
     (let score = 0;
          score = (if js_includes (toLowerCase (title it)) normalizedQuery
                   then score + 10 else score);
          score = (if js_includes (toLowerCase (description it)) normalizedQuery
                   then score + 5 else score);
          score = (if field_matches (author it) normalizedQuery then score + 7 else score);
          score = (if field_matches (director it) normalizedQuery then score + 7 else score);
          score = (if field_matches (creator it) normalizedQuery then score + 7 else score);
          score = (if field_matches (location it) normalizedQuery then score + 6 else score);
          score = fold (\<lambda>tag score.
                          if js_includes (toLowerCase tag) normalizedQuery
                          then score + 8 else score)
                       (tags it) score;
          score = (if js_includes (toLowerCase (contentType it)) normalizedQuery
                   then score + 3 else score)
      in score)"

text \<open>
  \<open>Array.prototype.sort\<close> with a comparator is a stable sort: an element goes before
  the first element it does not compare greater than.
\<close>

fun insert_by :: "('a \<Rightarrow> 'a \<Rightarrow> int) \<Rightarrow> 'a \<Rightarrow> 'a list \<Rightarrow> 'a list" where
  "insert_by cmp x [] = [x]"
| "insert_by cmp x (y # ys) =
     (if cmp x y \<le> 0 then x # y # ys else y # insert_by cmp x ys)"

definition js_sort :: "('a \<Rightarrow> 'a \<Rightarrow> int) \<Rightarrow> 'a list \<Rightarrow> 'a list" where
  "js_sort cmp xs = foldr (insert_by cmp) xs []"

definition by_score_desc :: "search_result \<Rightarrow> search_result \<Rightarrow> int" where
  "by_score_desc a b = score b - score a"

definition matches :: "search_entry list \<Rightarrow> string \<Rightarrow> search_result list" where
  "matches idx normalizedQuery =
     fold (\<lambda>it results.
             (let sc = scoreItem it normalizedQuery
              in if sc > 0 then results @ [\<lparr>item = it, score = sc\<rparr>] else results))
          idx []"

definition search :: "string \<Rightarrow> search_state \<Rightarrow> search_result list" where
  "search query s =
     (if query = [] \<or> length (trim query) = 0 then []
      else
        (let normalizedQuery = trim (toLowerCase query);
             results = matches (searchIndex s) normalizedQuery
         in js_sort by_score_desc results))"

definition handleSearch :: "string \<Rightarrow> search_state \<Rightarrow> search_state" where
  "handleSearch query s =
     (if query = [] \<or> length (trim query) = 0 then s\<lparr>currentResults := []\<rparr>
      else s\<lparr>currentResults := search query s, selectedResultIndex := 0\<rparr>)"

subsection \<open>closeSearch, openSearch, selectResult\<close>

definition closeSearch :: "search_state \<Rightarrow> search_state" where
  "closeSearch s = (if \<not> overlay s then s else s\<lparr>isSearchOpen := False\<rparr>)"

definition openSearch :: "search_state \<Rightarrow> search_state" where
  "openSearch s =
     (if \<not> overlay s then s
      else s\<lparr>isSearchOpen := True, currentResults := [], selectedResultIndex := 0\<rparr>)"

definition toggleSearch :: "search_state \<Rightarrow> search_state" where
  "toggleSearch s = (if isSearchOpen s then closeSearch s else openSearch s)"

text \<open>\<open>this.currentResults[index]\<close> is \<open>undefined\<close> outside the array.\<close>

definition result_at :: "search_result list \<Rightarrow> int \<Rightarrow> search_result option" where
  "result_at rs i = (if 0 \<le> i \<and> i < int (length rs) then Some (rs ! nat i) else None)"

definition selectResult :: "window \<Rightarrow> int \<Rightarrow> search_state \<Rightarrow> search_state" where
  "selectResult w index s =
     (case result_at (currentResults s) index of
        None \<Rightarrow> s
      | Some result \<Rightarrow>
          (let s1 = (if route (item result) \<noteq> [] \<and> Router w
                     then s\<lparr>navigated := navigated s @ [route (item result)]\<rparr>
                     else s);
               s2 = closeSearch s1
           in s2\<lparr>lightboxTimers := lightboxTimers s2 @ [result]\<rparr>))"

subsection \<open>handleKeyboardNavigation\<close>

definition handleKeyboardNavigation :: "window \<Rightarrow> string \<Rightarrow> search_state \<Rightarrow> search_state" where
  "handleKeyboardNavigation w key s =
     (if length (currentResults s) = 0 then s
      else if key = ''ArrowDown'' then
        s\<lparr>selectedResultIndex :=
            min (selectedResultIndex s + 1) (int (length (currentResults s)) - 1)\<rparr>
      else if key = ''ArrowUp'' then
        s\<lparr>selectedResultIndex := max (selectedResultIndex s - 1) 0\<rparr>
      else if key = ''Enter'' then selectResult w (selectedResultIndex s) s
      else if key = ''Escape'' then closeSearch s
      else s)"


subsection \<open>Key events\<close>

text \<open>
  A \<open>keydown\<close> event: the key, the element it is aimed at, and whether Ctrl, Meta or
  Alt is held. The search input and any other \<open>input\<close> have the tag name \<open>INPUT\<close>.
\<close>

datatype target = SearchInput | OtherInput | TextArea | OtherElement

record key_event =
  key :: string
  target :: target
  modifier :: bool

text \<open>
  The document's listener of \<open>setupKeyboardShortcuts\<close>, as far as it touches the search
  system; the shortcuts for the sitemap, the router, the theme and the gallery leave the
  search state alone.
\<close>

definition globalShortcut :: "key_event \<Rightarrow> search_state \<Rightarrow> search_state" where
  "globalShortcut ev s =
     (if target ev = SearchInput \<or> target ev = OtherInput \<or> target ev = TextArea then s
      else if isSearchOpen s then
        (if toLowerCase (key ev) = ''escape'' then closeSearch s else s)
      else if toLowerCase (key ev) = ''/'' \<and> \<not> modifier ev then openSearch s
      else s)"

text \<open>
  A key press runs the listener on the search input when the input is the target, and
  then, bubbling, the listener on the document.
\<close>

definition keydown :: "window \<Rightarrow> key_event \<Rightarrow> search_state \<Rightarrow> search_state" where
  "keydown w ev s =
     (let s1 = (if target ev = SearchInput then handleKeyboardNavigation w (key ev) s else s)
      in globalShortcut ev s1)"


section \<open>The router\<close>

subsection \<open>Property lookup on an object literal\<close>

text \<open>
  \<open>obj[key]\<close> on an object literal finds the object's own keys and, after them, the
  members every object inherits from \<open>Object.prototype\<close>. The inherited members are
  functions or objects, so they are truthy, and none of them has a property \<open>title\<close>,
  \<open>layout\<close> or \<open>backWall\<close>. A key that is neither is \<open>undefined\<close>.
\<close>

datatype 'a member = Own 'a | Inherited | Undefined

definition object_prototype_keys :: "string list" where
  "object_prototype_keys =
     [''constructor'', ''hasOwnProperty'', ''isPrototypeOf'', ''propertyIsEnumerable'',
      ''toLocaleString'', ''toString'', ''valueOf'', ''__proto__'',
      ''__defineGetter__'', ''__defineSetter__'', ''__lookupGetter__'', ''__lookupSetter__'']"

definition js_get :: "(string \<times> 'a) list \<Rightarrow> string \<Rightarrow> 'a member" where
  "js_get obj k =
     (case map_of obj k of
        Some v \<Rightarrow> Own v
      | None \<Rightarrow> if k \<in> set object_prototype_keys then Inherited else Undefined)"

text \<open>\<open>xs[i]\<close> on an array is \<open>undefined\<close> outside the array.\<close>

definition element_at :: "'a list \<Rightarrow> nat \<Rightarrow> 'a option" where
  "element_at xs i = (if i < length xs then Some (xs ! i) else None)"

subsection \<open>The route table\<close>

datatype wall =
    Navigation string string string
  | Placeholder string
  | SectionTitle string
  | PhotoSpace string
  | Empty

fun wall_type :: "wall \<Rightarrow> string" where
  "wall_type (Navigation content r label) = ''navigation''"
| "wall_type (Placeholder content) = ''placeholder''"
| "wall_type (SectionTitle content) = ''section-title''"
| "wall_type (PhotoSpace content) = ''photo-space''"
| "wall_type Empty = ''empty''"

text \<open>
  A route configuration: title, back, left and right wall, or, with
  \<open>layout: 'four-walls'\<close>, title, heading and the four walls from left to right.
\<close>

datatype route_config =
    ThreeWalls string wall wall wall
  | FourWalls string string wall wall wall wall

fun cfg_title :: "route_config \<Rightarrow> string" where
  "cfg_title (ThreeWalls t b l r) = t"
| "cfg_title (FourWalls t h w1 w2 w3 w4) = t"

fun backWall :: "route_config \<Rightarrow> wall option" where
  "backWall (ThreeWalls t b l r) = Some b"
| "backWall (FourWalls t h w1 w2 w3 w4) = None"

definition routes :: "(string \<times> route_config) list" where
  "routes =
     [([], ThreeWalls ''Personal Museum''
          (PhotoSpace [])
          (Navigation ''WORKS'' ''/works'' ''navigate'')
          (Navigation ''ABOUT'' ''/about'' ''navigate'')),
      (''/about'', ThreeWalls ''About - Personal Museum'' (Placeholder ''ABOUT'') Empty Empty),
      (''/works'', ThreeWalls ''Works - Personal Museum''
          (SectionTitle ''WORKS'')
          (Navigation ''PERSONAL'' ''/works/personal'' ''navigate'')
          (Navigation ''CURATED'' ''/works/curated'' ''navigate'')),
      (''/works/personal'', FourWalls ''Personal Works - Museum'' ''Personal Works''
          (Navigation ''PHOTOGRAPHY'' ''/works/personal/photography'' ''view'')
          (Navigation ''WRITINGS'' ''/works/personal/writings'' ''read'')
          (Navigation ''MUSIC'' ''/works/personal/music'' ''listen'')
          (Navigation ''PROJECTS'' ''/works/personal/projects'' ''explore'')),
      (''/works/personal/writings'',
          ThreeWalls ''Personal Writings - Museum'' (Placeholder ''WRITINGS'') Empty Empty),
      (''/works/personal/photography'',
          ThreeWalls ''Photography - Museum'' (Placeholder ''PHOTOGRAPHY'') Empty Empty),
      (''/works/curated'', FourWalls ''Curated Works - Museum'' ''Curated Works''
          (Navigation ''WRITINGS'' ''/works/curated/writings'' ''read'')
          (Navigation ''CINEMA & TV'' ''/works/curated/cinema'' ''watch'')
          (Navigation ''MUSIC'' ''/works/curated/music'' ''listen'')
          (Navigation ''MISCELLANEOUS'' ''/works/curated/misc'' ''explore'')),
      (''/works/curated/writings'',
          ThreeWalls ''Curated Writings - Museum'' (Placeholder ''CURATED WRITINGS'') Empty Empty),
      (''/works/curated/cinema'',
          ThreeWalls ''Cinema & TV - Museum'' (Placeholder ''CINEMA & TV'') Empty Empty),
      (''/works/curated/music'',
          ThreeWalls ''Curated Music - Museum'' (Placeholder ''CURATED MUSIC'') Empty Empty),
      (''/works/curated/misc'',
          ThreeWalls ''Miscellaneous - Museum'' (Placeholder ''MISCELLANEOUS'') Empty Empty),
      (''/works/personal/music'',
          ThreeWalls ''Personal Music - Museum'' (Placeholder ''MUSIC'') Empty Empty),
      (''/works/personal/projects'',
          ThreeWalls ''Projects - Museum'' (Placeholder ''PROJECTS'') Empty Empty)]"

subsection \<open>Router state\<close>

text \<open>
  What a controller is asked to do for a route: \<open>init()\<close> alone (the about page),
  \<open>init()\<close> then \<open>render()\<close> (the photography overview), or \<open>render(collectionId)\<close>
  with the argument left out (\<open>None\<close>) or given.
\<close>

datatype ctrl =
    About | Photography | Writings | Music | Projects
  | CuratedWritings | CuratedCinema | CuratedMusic | CuratedMisc

datatype call = CallInit | CallInitRender | CallRender "string option"

text \<open>
  What \<open>renderRoute\<close> leaves on the screen once it has run to its end: the
  room-not-found panel, a controller's view, or the room painted from the route table
  under a view class (from an inherited member there are no walls to paint).
\<close>

datatype render = Blank | NotFound | ControllerView ctrl call | Room string "route_config option"

text \<open>
  \<open>browserHistory\<close> holds the fragments pushed with \<open>history.pushState\<close>,
  \<open>documentTitle\<close> is \<open>document.title\<close>.
\<close>

record router_state =
  currentRoute :: string
  previousRoute :: string
  lastClickedWall :: "string option"
  navigationHistory :: "string list"
  browserHistory :: "string list"
  documentTitle :: string
  rendered :: render

subsection \<open>getViewClass\<close>

definition isForwardNavigation :: "router_state \<Rightarrow> bool" where
  "isForwardNavigation s =
     (if previousRoute s = [] \<or> currentRoute s = [] then False
      else
        (let prevDepth = length (js_split CHR ''/'' (previousRoute s));
             currDepth = length (js_split CHR ''/'' (currentRoute s))
         in currDepth > prevDepth))"

definition isLeafRoute :: "router_state \<Rightarrow> bool" where
  "isLeafRoute s =
     (case js_get routes (currentRoute s) of
        Undefined \<Rightarrow> False
      | Inherited \<Rightarrow> False
      | Own routeConfig \<Rightarrow>
          (case backWall routeConfig of
             None \<Rightarrow> False
           | Some b \<Rightarrow> wall_type b \<notin> set [''empty'', ''section-title'', ''photo-space'']))"

definition getViewClass :: "router_state \<Rightarrow> string" where
  "getViewClass s =
     (if isForwardNavigation s then ''move-forward''
      else if currentRoute s \<noteq> ''/about'' \<and> lastClickedWall s = Some ''left'' \<and> isLeafRoute s
        then ''view-left''
      else if currentRoute s \<noteq> ''/about'' \<and> lastClickedWall s = Some ''right'' \<and> isLeafRoute s
        then ''view-right''
      else [])"

subsection \<open>handleControllerRoute\<close>

text \<open>
  The checks in the order of the source. A check whose controller is missing falls
  through to the checks after it. The result is the controller that took the route and
  the call made on it, or \<open>None\<close> where the source returns \<open>false\<close>.
\<close>

definition handleControllerRoute :: "window \<Rightarrow> string \<Rightarrow> (ctrl \<times> call) option" where
  "handleControllerRoute w r =
     (if r = ''/about'' \<and> AboutController w then Some (About, CallInit)
      else if r = ''/works/personal/photography'' \<and> PhotographyController w \<noteq> None
        then Some (Photography, CallInitRender)
      else if startsWith r ''/photography/'' \<and> PhotographyController w \<noteq> None
        then Some (Photography, CallRender (element_at (js_split CHR ''/'' r) 2))
      else if r = ''/works/personal/writings'' \<and> WritingsController w \<noteq> None
        then Some (Writings, CallRender None)
      else if r = ''/works/personal/music'' \<and> MusicController w \<noteq> None
        then Some (Music, CallRender None)
      else if r = ''/works/personal/projects'' \<and> ProjectsController w \<noteq> None
        then Some (Projects, CallRender None)
      else if r = ''/works/curated/writings'' \<and> CuratedWritingsController w \<noteq> None
        then Some (CuratedWritings, CallRender None)
      else if startsWith r ''/works/curated/writings/'' \<and> CuratedWritingsController w \<noteq> None
        then Some (CuratedWritings, CallRender (element_at (js_split CHR ''/'' r) 4))
      else if r = ''/works/curated/cinema'' \<and> CuratedCinemaController w \<noteq> None
        then Some (CuratedCinema, CallRender None)
      else if startsWith r ''/works/curated/cinema/'' \<and> CuratedCinemaController w \<noteq> None
        then Some (CuratedCinema, CallRender (element_at (js_split CHR ''/'' r) 4))
      else if r = ''/works/curated/music'' \<and> CuratedMusicController w \<noteq> None
        then Some (CuratedMusic, CallRender None)
      else if startsWith r ''/works/curated/music/'' \<and> CuratedMusicController w \<noteq> None
        then Some (CuratedMusic, CallRender (element_at (js_split CHR ''/'' r) 4))
      else if r = ''/works/curated/misc'' \<and> CuratedMiscController w \<noteq> None
        then Some (CuratedMisc, CallRender None)
      else if startsWith r ''/works/curated/misc/'' \<and> CuratedMiscController w \<noteq> None
        then Some (CuratedMisc, CallRender (element_at (js_split CHR ''/'' r) 4))
      else None)"

subsection \<open>renderRoute, navigateTo, goBack\<close>

text \<open>
  \<open>renderRoute\<close> looks the route up in the table first and shows the room-not-found
  panel when the lookup is \<open>undefined\<close>; only then does it ask the controllers.
\<close>

definition renderRoute :: "window \<Rightarrow> string \<Rightarrow> router_state \<Rightarrow> router_state" where
  "renderRoute w r s =
     (let routeConfig = js_get routes r
      in if routeConfig = Undefined then s\<lparr>rendered := NotFound\<rparr>
         else
           (case handleControllerRoute w r of
              Some (c, f) \<Rightarrow> s\<lparr>rendered := ControllerView c f\<rparr>
            | None \<Rightarrow>
                s\<lparr>rendered :=
                    Room (getViewClass s)
                         (case routeConfig of Own cfg \<Rightarrow> Some cfg | _ \<Rightarrow> None)\<rparr>))"

text \<open>
  Assigning the missing \<open>title\<close> of an inherited member to \<open>document.title\<close> stores the
  text \<open>undefined\<close>.
\<close>

definition navigateTo ::
  "window \<Rightarrow> string \<Rightarrow> bool \<Rightarrow> string option \<Rightarrow> router_state \<Rightarrow> router_state" where
  "navigateTo w r addToHistory clickedWall s =
     (let s = s\<lparr>previousRoute := currentRoute s, currentRoute := r,
                lastClickedWall := clickedWall,
                navigationHistory := navigationHistory s @ [r]\<rparr>;
          s = (if addToHistory then s\<lparr>browserHistory := browserHistory s @ [''#'' @ r]\<rparr>
               else s);
          s = (case js_get routes r of
                 Own routeConfig \<Rightarrow> s\<lparr>documentTitle := cfg_title routeConfig\<rparr>
               | Inherited \<Rightarrow> s\<lparr>documentTitle := ''undefined''\<rparr>
               | Undefined \<Rightarrow> s)
      in renderRoute w r s)"

text \<open>
  \<open>handleRoute\<close> reads the fragment of the address, the text after \<open>#\<close>, and
  navigates to it when it differs from the current route or the current route is home.
\<close>

definition handleRoute :: "window \<Rightarrow> string \<Rightarrow> router_state \<Rightarrow> router_state" where
  "handleRoute w hash s =
     (let r = hash
      in if r \<noteq> currentRoute s \<or> currentRoute s = [] then navigateTo w r False None s
         else s)"

definition hierarchy :: "(string \<times> string) list" where
  "hierarchy =
     [(''/about'', []),
      (''/works'', []),
      (''/works/personal'', ''/works''),
      (''/works/curated'', ''/works''),
      (''/works/personal/photography'', ''/works/personal''),
      (''/works/personal/writings'', ''/works/personal''),
      (''/works/personal/music'', ''/works/personal''),
      (''/works/personal/projects'', ''/works/personal''),
      (''/works/curated/writings'', ''/works/curated''),
      (''/works/curated/cinema'', ''/works/curated''),
      (''/works/curated/music'', ''/works/curated''),
      (''/works/curated/misc'', ''/works/curated'')]"

text \<open>
  \<open>hierarchy[currentRoute] || ''\<close>: a declared parent, home where none is declared, and
  for the name of an inherited member that member itself, which is not a string.
\<close>

datatype parent = ParentRoute string | InheritedMember string

definition getParentRoute :: "string \<Rightarrow> parent" where
  "getParentRoute r =
     (if r = [] then ParentRoute []
      else
        (case js_get hierarchy r of
           Own p \<Rightarrow> ParentRoute p
         | Inherited \<Rightarrow> InheritedMember r
         | Undefined \<Rightarrow> ParentRoute []))"

text \<open>
  \<open>goBack\<close> hands the parent to \<open>navigateTo\<close> whatever it is. The router state holds
  route strings, so the result is \<open>None\<close> where the parent is an inherited member and
  the navigation goes on with a value that is not a route string.
\<close>

definition goBack :: "window \<Rightarrow> router_state \<Rightarrow> router_state option" where
  "goBack w s =
     (case getParentRoute (currentRoute s) of
        ParentRoute parentRoute \<Rightarrow> Some (navigateTo w parentRoute True None s)
      | InheritedMember k \<Rightarrow> None)"


section \<open>The scoring rule in the words of the specification\<close>

text \<open>\<open>q\<close> is a substring of \<open>s\<close>.\<close>

definition substring_of :: "string \<Rightarrow> string \<Rightarrow> bool" where
  "substring_of q s = (\<exists>pre post. s = pre @ q @ post)"

text \<open>
  The score of an entry for a normalized query: title 10, description 5, author,
  director and creator 7 each, location 6, every matching tag 8, content type label 3.
\<close>

definition weighted_score :: "search_entry \<Rightarrow> string \<Rightarrow> int" where
  "weighted_score e q =
     (if substring_of q (toLowerCase (title e)) then 10 else 0)
   + (if substring_of q (toLowerCase (description e)) then 5 else 0)
   + (if \<exists>v. author e = Some v \<and> substring_of q (toLowerCase v) then 7 else 0)
   + (if \<exists>v. director e = Some v \<and> substring_of q (toLowerCase v) then 7 else 0)
   + (if \<exists>v. creator e = Some v \<and> substring_of q (toLowerCase v) then 7 else 0)
   + (if \<exists>v. location e = Some v \<and> substring_of q (toLowerCase v) then 6 else 0)
   + 8 * int (length (filter (\<lambda>tag. substring_of q (toLowerCase tag)) (tags e)))
   + (if substring_of q (toLowerCase (contentType e)) then 3 else 0)"


section \<open>Sample data\<close>

text \<open>The router and the search system as the scripts create them, the overlay found.\<close>

definition Router0 :: router_state where
  "Router0 =
     \<lparr>currentRoute = [], previousRoute = [], lastClickedWall = None,
      navigationHistory = [], browserHistory = [], documentTitle = [],
      rendered = Blank\<rparr>"

definition SearchSystem0 :: search_state where
  "SearchSystem0 =
     \<lparr>searchIndex = [], isIndexed = False, isSearchOpen = False, currentResults = [],
      selectedResultIndex = 0, overlay = True, navigated = [], lightboxTimers = []\<rparr>"

definition blank :: content where
  "blank =
     \<lparr>c_id = [], c_title = [], c_filename = None, c_description = None, c_excerpt = None,
      c_location = None, c_tags = None, c_genres = None, c_technologies = None,
      c_author = None, c_director = None, c_artist = None, c_creator = None,
      c_collection = None\<rparr>"

definition night_walk :: content where
  "night_walk =
     blank\<lparr>c_id := ''p1'', c_title := ''Night Walk'',
           c_description := Some ''a street photo'',
           c_tags := Some [''urban'', ''night''], c_collection := Some ''street''\<rparr>"

definition harbour :: content where
  "harbour =
     blank\<lparr>c_id := ''p2'', c_title := ''Harbour'', c_location := Some ''Lisbon'',
           c_tags := Some [''sea''], c_collection := Some ''travel''\<rparr>"

definition essay :: content where
  "essay =
     blank\<lparr>c_id := ''w1'', c_title := ''On Walking'', c_filename := Some ''walking.md'',
           c_excerpt := Some ''notes from the night shift''\<rparr>"

definition blue_train :: content where
  "blue_train =
     blank\<lparr>c_id := ''m1'', c_title := ''Blue Train'', c_artist := Some ''John Coltrane'',
           c_genres := Some [''jazz''], c_collection := Some ''albums''\<rparr>"

definition stalker :: content where
  "stalker =
     blank\<lparr>c_id := ''f1'', c_title := ''Stalker'', c_director := Some ''Andrei Tarkovsky'',
           c_genres := Some [''drama''], c_collection := Some ''films''\<rparr>"

definition window0 :: window where
  "window0 =
     \<lparr>Router = True, UniversalContentLightbox = True, AboutController = True,
      PhotographyController = Some (Some [night_walk, harbour]),
      WritingsController = Some (Some [essay]),
      MusicController = Some None,
      ProjectsController = None,
      CuratedWritingsController = Some (Some []),
      CuratedCinemaController = Some (Some [stalker]),
      CuratedMusicController = Some (Some [blue_train]),
      CuratedMiscController = Some (Some [])\<rparr>"

text \<open>A search state with two results listed and the second one selected.\<close>

definition two_results :: search_state where
  "two_results =
     SearchSystem0\<lparr>currentResults :=
                     [\<lparr>item = photo_entry night_walk, score = 18\<rparr>,
                      \<lparr>item = writing_entry essay, score = 5\<rparr>],
                   selectedResultIndex := 1\<rparr>"


text \<open>The search system after \<open>buildSearchIndex\<close> over the sample window.\<close>

definition indexed0 :: search_state where
  "indexed0 = buildSearchIndex window0 SearchSystem0"


text \<open>
  Router states reached from the start: the first load of the home route, a click on the
  left wall of home that leads to \<open>/works\<close>, and a visit of the curated music room.
\<close>

definition home_loaded :: router_state where
  "home_loaded = handleRoute window0 [] Router0"

definition at_works :: router_state where
  "at_works = navigateTo window0 ''/works'' True (Some ''left'') home_loaded"

definition at_curated_music :: router_state where
  "at_curated_music = navigateTo window0 ''/works/curated/music'' True None at_works"


text \<open>The search surface just opened: the input has the focus and nothing is listed.\<close>

definition search_opened :: search_state where
  "search_opened = openSearch indexed0"

definition escape_in_input :: key_event where
  "escape_in_input = \<lparr>key = ''Escape'', target = SearchInput, modifier = False\<rparr>"


section \<open>Facts about strings\<close>

lemma startsWith_iff: "startsWith s p \<longleftrightarrow> (\<exists>post. s = p @ post)"
  by (induction s p rule: startsWith.induct) auto

lemma js_includes_iff: "js_includes s q \<longleftrightarrow> substring_of q s"
proof (induction s)
  case Nil
  show ?case by (auto simp: substring_of_def)
next
  case (Cons c cs)
  have "substring_of q (c # cs) \<longleftrightarrow> (\<exists>post. c # cs = q @ post) \<or> substring_of q cs"
  proof
    assume "substring_of q (c # cs)"
    then obtain pre post where e: "c # cs = pre @ q @ post"
      by (auto simp: substring_of_def)
    show "(\<exists>post. c # cs = q @ post) \<or> substring_of q cs"
    proof (cases pre)
      case Nil
      with e show ?thesis by auto
    next
      case (Cons a pre')
      with e have "cs = pre' @ q @ post" by simp
      then show ?thesis by (auto simp: substring_of_def)
    qed
  next
    assume "(\<exists>post. c # cs = q @ post) \<or> substring_of q cs"
    then show "substring_of q (c # cs)"
    proof
      assume "\<exists>post. c # cs = q @ post"
      then obtain post where "c # cs = [] @ q @ post" by auto
      then show ?thesis unfolding substring_of_def by blast
    next
      assume "substring_of q cs"
      then obtain pre post where "cs = pre @ q @ post" by (auto simp: substring_of_def)
      then have "c # cs = (c # pre) @ q @ post" by simp
      then show ?thesis unfolding substring_of_def by blast
    qed
  qed
  with Cons show ?case by (simp add: startsWith_iff)
qed

lemma tag_fold_sum:
  "fold (\<lambda>tag sc. sc + (if P tag then 8 else 0)) ts (sc0::int) =
     sc0 + 8 * int (length (filter P ts))"
  by (induction ts arbitrary: sc0) auto

lemma trim_nonempty_iff: "trim s \<noteq> [] \<longleftrightarrow> (\<exists>c \<in> set s. \<not> is_ws c)"
proof
  assume t: "trim s \<noteq> []"
  have "dropWhile is_ws s \<noteq> []"
  proof
    assume e: "dropWhile is_ws s = []"
    have "trim s = []" unfolding trim_def e by simp
    with t show False by simp
  qed
  then show "\<exists>c \<in> set s. \<not> is_ws c"
    using dropWhile_eq_Nil_conv [of is_ws s] by blast
next
  assume "\<exists>c \<in> set s. \<not> is_ws c"
  then have ne: "dropWhile is_ws s \<noteq> []"
    using dropWhile_eq_Nil_conv [of is_ws s] by blast
  then have "\<not> is_ws (hd (dropWhile is_ws s))" by (rule hd_dropWhile)
  moreover have "hd (dropWhile is_ws s) \<in> set (rev (dropWhile is_ws s))" using ne by simp
  ultimately have "dropWhile is_ws (rev (dropWhile is_ws s)) \<noteq> []"
    using dropWhile_eq_Nil_conv [of is_ws "rev (dropWhile is_ws s)"] by blast
  then show "trim s \<noteq> []" by (simp add: trim_def)
qed

lemma is_ws_lower_char: "is_ws (lower_char c) = is_ws c"
  by (auto simp: is_ws_def lower_char_def Let_def)

lemma normalise_samples:
  "trim [CHR 0xA0] = []"
  "trim (toLowerCase (''Night'' @ [CHR 0xA0])) = ''night''"
  "toLowerCase [CHR 0xC9, CHR 0xD7, CHR 0xDF] = [CHR 0xE9, CHR 0xD7, CHR 0xDF]"
  by code_simp+

lemma trim_lower_nonempty: "trim s \<noteq> [] \<Longrightarrow> trim (toLowerCase s) \<noteq> []"
  by (auto simp: trim_nonempty_iff toLowerCase_def is_ws_lower_char)


section \<open>Facts about the index, scoring and sorting\<close>

lemma field_matches_iff:
  "q \<noteq> [] \<Longrightarrow>
     field_matches f q \<longleftrightarrow> (\<exists>v. f = Some v \<and> substring_of q (toLowerCase v))"
  by (cases f) (auto simp: field_matches_def js_includes_iff toLowerCase_def substring_of_def)

lemma bump: "(if c then (sc::int) + k else sc) = sc + (if c then k else 0)"
  by simp

lemma scoreItem_sum:
  "scoreItem e q =
     (if js_includes (toLowerCase (title e)) q then 10 else 0)
   + (if js_includes (toLowerCase (description e)) q then 5 else 0)
   + (if field_matches (author e) q then 7 else 0)
   + (if field_matches (director e) q then 7 else 0)
   + (if field_matches (creator e) q then 7 else 0)
   + (if field_matches (location e) q then 6 else 0)
   + 8 * int (length (filter (\<lambda>tag. js_includes (toLowerCase tag) q) (tags e)))
   + (if js_includes (toLowerCase (contentType e)) q then 3 else 0)"
  by (simp add: scoreItem_def Let_def tag_fold_sum bump split del: if_split)

lemma scoreItem_weighted:
  "q \<noteq> [] \<Longrightarrow> scoreItem e q = weighted_score e q"
  by (simp add: scoreItem_sum weighted_score_def field_matches_iff js_includes_iff
      split del: if_split)

lemma scoreItem_nonneg: "0 \<le> scoreItem e q"
  by (simp add: scoreItem_sum)

lemma matches_fold:
  "fold (\<lambda>it results.
           (let sc = scoreItem it q
            in if sc > 0 then results @ [\<lparr>item = it, score = sc\<rparr>] else results))
        idx acc =
     acc @ map (\<lambda>it. \<lparr>item = it, score = scoreItem it q\<rparr>)
               (filter (\<lambda>it. 0 < scoreItem it q) idx)"
  by (induction idx arbitrary: acc) (simp_all add: Let_def)

lemma matches_eq:
  "matches idx q =
     map (\<lambda>it. \<lparr>item = it, score = scoreItem it q\<rparr>) (filter (\<lambda>it. 0 < scoreItem it q) idx)"
  by (simp add: matches_def matches_fold)

lemma insert_by_score:
  "insert_by by_score_desc x ys = insort_key (\<lambda>r. - score r) x ys"
  by (induction ys) (simp_all add: by_score_desc_def)

lemma js_sort_by_score: "js_sort by_score_desc xs = sort_key (\<lambda>r. - score r) xs"
  by (induction xs) (simp_all add: js_sort_def insert_by_score)

lemma search_eq:
  assumes "trim query \<noteq> []"
  shows "search query s =
           sort_key (\<lambda>r. - score r)
             (map (\<lambda>it. \<lparr>item = it, score = scoreItem it (trim (toLowerCase query))\<rparr>)
                  (filter (\<lambda>it. 0 < scoreItem it (trim (toLowerCase query))) (searchIndex s)))"
proof -
  from assms have "query \<noteq> []" by (auto simp: trim_def)
  with assms show ?thesis
    by (simp add: search_def Let_def matches_eq js_sort_by_score)
qed


lemma push_fold: "fold (\<lambda>x acc. acc @ [mk x]) vals idx = idx @ map mk vals"
  by (induction vals arbitrary: idx) simp_all

lemma index_collection_eq: "index_collection c mk idx = idx @ map mk (records_of c)"
  by (simp add: index_collection_def records_of_def push_fold split: option.split)

lemma searchIndex_build:
  "searchIndex (buildSearchIndex w s) =
     map photo_entry (records_of (PhotographyController w))
   @ map writing_entry (records_of (WritingsController w))
   @ map music_entry (records_of (MusicController w))
   @ map project_entry (records_of (ProjectsController w))
   @ map curated_writing_entry (records_of (CuratedWritingsController w))
   @ map curated_cinema_entry (records_of (CuratedCinemaController w))
   @ map curated_music_entry (records_of (CuratedMusicController w))
   @ map curated_misc_entry (records_of (CuratedMiscController w))"
  by (simp add: buildSearchIndex_def Let_def index_collection_eq)


lemma search_items_score:
  assumes "trim query \<noteq> []"
  shows "item ` set (search query s) =
           {e \<in> set (searchIndex s). 0 < scoreItem e (trim (toLowerCase query))}"
  using assms by (auto simp: search_eq image_iff)


section \<open>Facts about the router\<close>

lemma renderRoute_fields:
  "currentRoute (renderRoute w r s) = currentRoute s"
  "previousRoute (renderRoute w r s) = previousRoute s"
  "lastClickedWall (renderRoute w r s) = lastClickedWall s"
  "navigationHistory (renderRoute w r s) = navigationHistory s"
  "browserHistory (renderRoute w r s) = browserHistory s"
  "documentTitle (renderRoute w r s) = documentTitle s"
  by (simp_all add: renderRoute_def Let_def split: option.split prod.split)

lemma navigateTo_fields:
  "currentRoute (navigateTo w r h c s) = r"
  "previousRoute (navigateTo w r h c s) = currentRoute s"
  "lastClickedWall (navigateTo w r h c s) = c"
  "navigationHistory (navigateTo w r h c s) = navigationHistory s @ [r]"
  "browserHistory (navigateTo w r h c s) =
     (if h then browserHistory s @ [''#'' @ r] else browserHistory s)"
  by (simp_all add: navigateTo_def Let_def renderRoute_fields split: member.split)

lemma navigateTo_undefined:
  "js_get routes r = Undefined \<Longrightarrow> rendered (navigateTo w r h c s) = NotFound"
  by (simp add: navigateTo_def Let_def renderRoute_def)

lemma home_loaded_eq: "home_loaded = navigateTo window0 [] False None Router0"
  by (simp add: home_loaded_def handleRoute_def Router0_def)

lemma goBack_declared_parent:
  assumes "map_of hierarchy (currentRoute s) = Some p"
  shows "goBack w s = Some (navigateTo w p True None s)"
proof -
  from assms have "currentRoute s \<noteq> []" by (auto simp: hierarchy_def)
  with assms show ?thesis by (simp add: goBack_def getParentRoute_def js_get_def)
qed

lemma goBack_home:
  assumes "currentRoute s = []"
  shows "goBack w s = Some (navigateTo w [] True None s)"
  using assms by (simp add: goBack_def getParentRoute_def)

lemma js_split_nonempty: "js_split sep s \<noteq> []"
  by (induction s) (simp_all split: list.split)

lemma js_split_length: "length (js_split sep s) = Suc (length (filter (\<lambda>c. c = sep) s))"
  by (induction s) (auto split: list.split)


lemma prefixed_route_undefined:
  "js_get routes (''/photography/'' @ post) = Undefined"
  "js_get routes (''/works/curated/writings/'' @ post) = Undefined"
  "js_get routes (''/works/curated/cinema/'' @ post) = Undefined"
  "js_get routes (''/works/curated/music/'' @ post) = Undefined"
  "js_get routes (''/works/curated/misc/'' @ post) = Undefined"
  by (simp_all add: js_get_def routes_def object_prototype_keys_def)

lemma dynamic_route_undefined:
  assumes "startsWith r ''/photography/'' \<or> startsWith r ''/works/curated/writings/''
         \<or> startsWith r ''/works/curated/cinema/'' \<or> startsWith r ''/works/curated/music/''
         \<or> startsWith r ''/works/curated/misc/''"
  shows "js_get routes r = Undefined"
  using assms unfolding startsWith_iff
  by (elim disjE exE) (simp_all only: prefixed_route_undefined)

lemma dynamic_route_not_found:
  assumes "startsWith r ''/photography/'' \<or> startsWith r ''/works/curated/writings/''
         \<or> startsWith r ''/works/curated/cinema/'' \<or> startsWith r ''/works/curated/music/''
         \<or> startsWith r ''/works/curated/misc/''"
  shows "rendered (renderRoute w r s) = NotFound"
  using dynamic_route_undefined [OF assms] by (simp add: renderRoute_def)

lemma exact_controller_route_delegates:
  "AboutController w \<Longrightarrow> rendered (renderRoute w ''/about'' s) = ControllerView About CallInit"
  "PhotographyController w \<noteq> None \<Longrightarrow>
     rendered (renderRoute w ''/works/personal/photography'' s) =
       ControllerView Photography CallInitRender"
  "CuratedMusicController w \<noteq> None \<Longrightarrow>
     rendered (renderRoute w ''/works/curated/music'' s) =
       ControllerView CuratedMusic (CallRender None)"
  by (simp_all add: renderRoute_def js_get_def routes_def handleControllerRoute_def)

section \<open>Facts about key events\<close>

lemma escape_closes_with_results:
  assumes "overlay s" and "currentResults s \<noteq> []"
  shows "\<not> isSearchOpen (keydown w \<lparr>key = ''Escape'', target = SearchInput, modifier = m\<rparr> s)"
  using assms
  by (simp add: keydown_def handleKeyboardNavigation_def globalShortcut_def closeSearch_def)

lemma escape_closes_outside_inputs:
  assumes "overlay s"
  shows "\<not> isSearchOpen (keydown w \<lparr>key = ''Escape'', target = OtherElement, modifier = m\<rparr> s)"
proof -
  have "toLowerCase ''Escape'' = ''escape''" by code_simp
  with assms show ?thesis
    by (simp add: keydown_def globalShortcut_def closeSearch_def)
qed


section \<open>Keyboard selection stays inside the result list\<close>

text \<open>
  C9. For a non-empty result list of length \<open>len\<close> and a selected index in
  \<open>[0, len - 1]\<close>, ArrowDown sets the selected index to \<open>min (i + 1) (len - 1)\<close> and
  ArrowUp sets it to \<open>max (i - 1) 0\<close>; at \<open>len - 1\<close> ArrowDown changes nothing, at \<open>0\<close>
  ArrowUp changes nothing, and in both cases the index is still in \<open>[0, len - 1]\<close>.
\<close>

theorem arrow_keys_clamped:
  assumes "currentResults s \<noteq> []"
    and "0 \<le> selectedResultIndex s"
    and "selectedResultIndex s \<le> int (length (currentResults s)) - 1"
  shows "selectedResultIndex (handleKeyboardNavigation w ''ArrowDown'' s) =
           min (selectedResultIndex s + 1) (int (length (currentResults s)) - 1)
       \<and> selectedResultIndex (handleKeyboardNavigation w ''ArrowUp'' s) =
           max (selectedResultIndex s - 1) 0
       \<and> (selectedResultIndex s = int (length (currentResults s)) - 1 \<longrightarrow>
            handleKeyboardNavigation w ''ArrowDown'' s = s)
       \<and> (selectedResultIndex s = 0 \<longrightarrow> handleKeyboardNavigation w ''ArrowUp'' s = s)
       \<and> (\<forall>key \<in> {''ArrowDown'', ''ArrowUp''}.
            0 \<le> selectedResultIndex (handleKeyboardNavigation w key s)
          \<and> selectedResultIndex (handleKeyboardNavigation w key s)
              \<le> int (length (currentResults s)) - 1
          \<and> currentResults (handleKeyboardNavigation w key s) = currentResults s)"
  using assms by (auto simp: handleKeyboardNavigation_def)

theorem arrow_keys_clamped_witness:
  "currentResults two_results \<noteq> []
   \<and> 0 \<le> selectedResultIndex two_results
   \<and> selectedResultIndex two_results \<le> int (length (currentResults two_results)) - 1
   \<and> selectedResultIndex (handleKeyboardNavigation window0 ''ArrowDown'' two_results) = 1
   \<and> selectedResultIndex (handleKeyboardNavigation window0 ''ArrowUp'' two_results) = 0
   \<and> handleKeyboardNavigation window0 ''ArrowDown'' two_results = two_results"
  using arrow_keys_clamped [of two_results window0]
  by (simp add: two_results_def SearchSystem0_def)

section \<open>The score of an entry\<close>

text \<open>
  C3. For a query that is not empty after trimming, with \<open>q\<close> the lowercased and
  trimmed query: the score \<open>search\<close> computes for an entry is the weighted sum of the
  specification (title 10, description 5, author, director and creator 7 each,
  location 6, 8 for every tag that contains \<open>q\<close>, content type label 3); every result
  is an index entry with that sum as its score, and the sum is not 0; every index entry
  whose sum is not 0 is among the results. An entry titled "Night Walk", described as
  "a street photo" and tagged "urban" and "night" scores at least 18 for "night".
\<close>

theorem search_score_is_weighted_sum:
  assumes "trim query \<noteq> []"
  shows "(\<forall>e. scoreItem e (trim (toLowerCase query)) = weighted_score e (trim (toLowerCase query)))
       \<and> (\<forall>r \<in> set (search query s).
            item r \<in> set (searchIndex s)
          \<and> score r = weighted_score (item r) (trim (toLowerCase query))
          \<and> score r \<noteq> 0)
       \<and> (\<forall>e \<in> set (searchIndex s).
            weighted_score e (trim (toLowerCase query)) \<noteq> 0 \<longrightarrow>
            \<lparr>item = e, score = weighted_score e (trim (toLowerCase query))\<rparr>
              \<in> set (search query s))
       \<and> (\<forall>e. title e = ''Night Walk'' \<and> description e = ''a street photo''
               \<and> tags e = [''urban'', ''night''] \<longrightarrow>
               18 \<le> scoreItem e (trim (toLowerCase ''night'')))"
proof -
  define q where "q = trim (toLowerCase query)"
  have q: "q \<noteq> []" using assms by (simp add: q_def trim_lower_nonempty)
  have w: "scoreItem e q = weighted_score e q" for e
    using q by (rule scoreItem_weighted)
  have pos: "0 < weighted_score e q \<longleftrightarrow> weighted_score e q \<noteq> 0" for e
    using scoreItem_nonneg [of e q] w [of e] by auto
  have s: "set (search query s) =
             (\<lambda>e. \<lparr>item = e, score = weighted_score e q\<rparr>)
               ` {e \<in> set (searchIndex s). weighted_score e q \<noteq> 0}"
    using assms by (auto simp: search_eq q_def [symmetric] w pos)
  have n: "trim (toLowerCase ''night'') = ''night''" by code_simp
  have ex: "18 \<le> scoreItem e ''night''"
    if "title e = ''Night Walk''" "description e = ''a street photo''"
      "tags e = [''urban'', ''night'']" for e
  proof -
    have "js_includes (toLowerCase ''Night Walk'') ''night''" by code_simp
    moreover have "\<not> js_includes (toLowerCase ''a street photo'') ''night''" by code_simp
    moreover have "filter (\<lambda>tag. js_includes (toLowerCase tag) ''night'') [''urban'', ''night'']
        = [''night'']" by code_simp
    ultimately show ?thesis using that
      by (simp add: scoreItem_sum)
  qed
  show ?thesis
    unfolding q_def [symmetric] n using w s ex by auto
qed

theorem search_score_is_weighted_sum_witness:
  "trim ''Night '' \<noteq> []
   \<and> weighted_score (photo_entry night_walk) (trim (toLowerCase ''Night '')) = 18
   \<and> map score (search ''Night '' indexed0) = [18, 5]"
proof -
  have a: "trim ''Night '' \<noteq> []" by code_simp
  have b: "scoreItem (photo_entry night_walk) (trim (toLowerCase ''Night '')) = 18"
    by code_simp
  have c: "map score (search ''Night '' indexed0) = [18, 5]" by code_simp
  from search_score_is_weighted_sum [OF a, of indexed0]
  have "scoreItem (photo_entry night_walk) (trim (toLowerCase ''Night '')) =
        weighted_score (photo_entry night_walk) (trim (toLowerCase ''Night ''))"
    by blast
  with a b c show ?thesis by simp
qed


section \<open>The order of the results\<close>

text \<open>
  C4. For a query that is not empty after trimming, every result of \<open>search\<close> has a
  score above 0, the results are sorted by score, highest first, and for every score
  \<open>k\<close> the results with score \<open>k\<close> are the index entries that score \<open>k\<close>, in the
  order of the index.
\<close>

theorem search_results_ranked:
  assumes "trim query \<noteq> []"
  shows "(\<forall>r \<in> set (search query s). 0 < score r)
       \<and> sorted_wrt (\<lambda>a b. score a \<ge> score b) (search query s)
       \<and> (\<forall>k. map item (filter (\<lambda>r. score r = k) (search query s)) =
                filter (\<lambda>e. scoreItem e (trim (toLowerCase query)) = k \<and> 0 < k)
                       (searchIndex s))"
proof -
  define q where "q = trim (toLowerCase query)"
  define ms where
    "ms = map (\<lambda>it. \<lparr>item = it, score = scoreItem it q\<rparr>)
              (filter (\<lambda>it. 0 < scoreItem it q) (searchIndex s))"
  have e: "search query s = sort_key (\<lambda>r. - score r) ms"
    using assms by (simp add: search_eq q_def ms_def)
  have p: "\<forall>r \<in> set (search query s). 0 < score r"
    by (auto simp: e ms_def)
  have "sorted (map (\<lambda>r. - score r) (sort_key (\<lambda>r. - score r) ms))"
    by (rule sorted_sort_key)
  then have o: "sorted_wrt (\<lambda>a b. score a \<ge> score b) (search query s)"
    by (simp add: e sorted_map)
  have st: "map item (filter (\<lambda>r. score r = k) (search query s)) =
            filter (\<lambda>e. scoreItem e q = k \<and> 0 < k) (searchIndex s)" for k
  proof -
    have "filter (\<lambda>r. score r = k) (search query s) = filter (\<lambda>r. - score r = - k) (search query s)"
      by simp
    also have "\<dots> = filter (\<lambda>r. - score r = - k) ms"
      unfolding e by (rule sort_key_stable)
    finally have "filter (\<lambda>r. score r = k) (search query s) = filter (\<lambda>r. score r = k) ms"
      by simp
    then show ?thesis
      by (simp add: ms_def filter_map comp_def conj_commute cong: conj_cong)
  qed
  show ?thesis using p o st unfolding q_def by blast
qed


theorem search_results_ranked_witness:
  "trim ''personal'' \<noteq> []
   \<and> sorted_wrt (\<lambda>a b. score a \<ge> score b) (search ''personal'' indexed0)
   \<and> map (\<lambda>r. (eid (item r), score r)) (search ''personal'' indexed0) =
       [(''p1'', 3), (''p2'', 3), (''walking.md'', 3)]
   \<and> map eid (searchIndex indexed0) = [''p1'', ''p2'', ''walking.md'', ''f1'', ''m1'']"
proof -
  have a: "trim ''personal'' \<noteq> []" by code_simp
  have b: "map (\<lambda>r. (eid (item r), score r)) (search ''personal'' indexed0) =
       [(''p1'', 3), (''p2'', 3), (''walking.md'', 3)]" by code_simp
  have c: "map eid (searchIndex indexed0) = [''p1'', ''p2'', ''walking.md'', ''f1'', ''m1'']"
    by code_simp
  from search_results_ranked [OF a, of indexed0]
  have "sorted_wrt (\<lambda>a b. score a \<ge> score b) (search ''personal'' indexed0)" by blast
  with a b c show ?thesis by simp
qed


section \<open>Building the index twice\<close>

text \<open>
  C6. \<open>buildSearchIndex\<close> is idempotent: over unchanged controller collections a
  second call leaves the state the first call produced, whatever the index held before;
  the (type, id) pairs of the index are those of the collections in the fixed order
  photo, writing, music, project, curated writing, curated cinema, curated music,
  curated misc, each collection in its own order.
\<close>

theorem buildSearchIndex_idempotent:
  "buildSearchIndex w (buildSearchIndex w s) = buildSearchIndex w s
   \<and> searchIndex (buildSearchIndex w s') = searchIndex (buildSearchIndex w s)
   \<and> map (\<lambda>e. (etype e, eid e)) (searchIndex (buildSearchIndex w s)) =
       map (\<lambda>x. (''photo'', c_id x)) (records_of (PhotographyController w))
     @ map (\<lambda>x. (''writing'', or_else (c_filename x) (c_title x)))
           (records_of (WritingsController w))
     @ map (\<lambda>x. (''music'', c_id x)) (records_of (MusicController w))
     @ map (\<lambda>x. (''project'', c_id x)) (records_of (ProjectsController w))
     @ map (\<lambda>x. (''curated_writing'', c_id x)) (records_of (CuratedWritingsController w))
     @ map (\<lambda>x. (''curated_cinema'', c_id x)) (records_of (CuratedCinemaController w))
     @ map (\<lambda>x. (''curated_music'', c_id x)) (records_of (CuratedMusicController w))
     @ map (\<lambda>x. (''curated_misc'', c_id x)) (records_of (CuratedMiscController w))"
proof -
  have a: "buildSearchIndex w (buildSearchIndex w s) = buildSearchIndex w s"
    by (simp add: buildSearchIndex_def Let_def)
  have b: "searchIndex (buildSearchIndex w s') = searchIndex (buildSearchIndex w s)"
    by (simp add: searchIndex_build)
  have c: "map (\<lambda>e. (etype e, eid e)) (searchIndex (buildSearchIndex w s)) =
       map (\<lambda>x. (''photo'', c_id x)) (records_of (PhotographyController w))
     @ map (\<lambda>x. (''writing'', or_else (c_filename x) (c_title x)))
           (records_of (WritingsController w))
     @ map (\<lambda>x. (''music'', c_id x)) (records_of (MusicController w))
     @ map (\<lambda>x. (''project'', c_id x)) (records_of (ProjectsController w))
     @ map (\<lambda>x. (''curated_writing'', c_id x)) (records_of (CuratedWritingsController w))
     @ map (\<lambda>x. (''curated_cinema'', c_id x)) (records_of (CuratedCinemaController w))
     @ map (\<lambda>x. (''curated_music'', c_id x)) (records_of (CuratedMusicController w))
     @ map (\<lambda>x. (''curated_misc'', c_id x)) (records_of (CuratedMiscController w))"
    by (simp add: searchIndex_build comp_def photo_entry_def writing_entry_def
        music_entry_def project_entry_def curated_writing_entry_def
        curated_cinema_entry_def curated_music_entry_def curated_misc_entry_def)
  from a b c show ?thesis by simp
qed


section \<open>The artist of a curated-music entry\<close>

text \<open>
  C10. The index entry built from a curated-music record \<open>x\<close> stores the performer
  under \<open>artist\<close> and has no author, director, creator or location. Its score for a
  query does not depend on the artist. So for a query that is not empty after trimming,
  normalized to \<open>q\<close>, with \<open>q\<close> a substring of none of the lowercased title,
  description, tags and content type label of the entry, the entry scores 0 and is not
  among the results, whether or not \<open>q\<close> occurs in the artist.
\<close>

theorem curated_music_artist_not_scored:
  assumes "trim query \<noteq> []"
  shows "artist (curated_music_entry x) = Some (or_else (c_artist x) [])
       \<and> author (curated_music_entry x) = None
       \<and> director (curated_music_entry x) = None
       \<and> creator (curated_music_entry x) = None
       \<and> location (curated_music_entry x) = None
       \<and> (\<forall>a. scoreItem ((curated_music_entry x)\<lparr>artist := a\<rparr>) (trim (toLowerCase query)) =
                scoreItem (curated_music_entry x) (trim (toLowerCase query)))
       \<and> (\<not> substring_of (trim (toLowerCase query)) (toLowerCase (title (curated_music_entry x)))
          \<and> \<not> substring_of (trim (toLowerCase query))
                 (toLowerCase (description (curated_music_entry x)))
          \<and> (\<forall>tag \<in> set (tags (curated_music_entry x)).
                 \<not> substring_of (trim (toLowerCase query)) (toLowerCase tag))
          \<and> \<not> substring_of (trim (toLowerCase query))
                 (toLowerCase (contentType (curated_music_entry x)))
          \<longrightarrow> scoreItem (curated_music_entry x) (trim (toLowerCase query)) = 0
              \<and> curated_music_entry x \<notin> item ` set (search query s))"
proof -
  define q where "q = trim (toLowerCase query)"
  define e where "e = curated_music_entry x"
  have f: "artist e = Some (or_else (c_artist x) [])" "author e = None" "director e = None"
    "creator e = None" "location e = None"
    by (simp_all add: e_def curated_music_entry_def)
  have i: "scoreItem (e\<lparr>artist := a\<rparr>) q = scoreItem e q" for a
    by (simp add: scoreItem_sum)
  have z: "scoreItem e q = 0 \<and> e \<notin> item ` set (search query s)"
    if "\<not> substring_of q (toLowerCase (title e))"
      "\<not> substring_of q (toLowerCase (description e))"
      "\<forall>tag \<in> set (tags e). \<not> substring_of q (toLowerCase tag)"
      "\<not> substring_of q (toLowerCase (contentType e))"
  proof -
    have "filter (\<lambda>tag. js_includes (toLowerCase tag) q) (tags e) = []"
      using that(3) by (simp add: filter_empty_conv js_includes_iff)
    with that f have "scoreItem e q = 0"
      by (simp add: scoreItem_sum js_includes_iff field_matches_def)
    then show ?thesis using assms by (simp add: search_items_score q_def)
  qed
  show ?thesis
    unfolding q_def [symmetric] e_def [symmetric] using f i z by blast
qed

theorem curated_music_artist_not_scored_witness:
  "trim ''Coltrane'' \<noteq> []
   \<and> artist (curated_music_entry blue_train) = Some ''John Coltrane''
   \<and> js_includes (toLowerCase ''John Coltrane'') (trim (toLowerCase ''Coltrane''))
   \<and> curated_music_entry blue_train \<in> set (searchIndex indexed0)
   \<and> scoreItem (curated_music_entry blue_train) (trim (toLowerCase ''Coltrane'')) = 0
   \<and> curated_music_entry blue_train \<notin> item ` set (search ''Coltrane'' indexed0)"
proof -
  have a: "trim ''Coltrane'' \<noteq> []" by code_simp
  have n: "trim (toLowerCase ''Coltrane'') = ''coltrane''" by code_simp
  have b: "artist (curated_music_entry blue_train) = Some ''John Coltrane''" by code_simp
  have c: "js_includes (toLowerCase ''John Coltrane'') ''coltrane''" by code_simp
  have d: "curated_music_entry blue_train \<in> set (searchIndex indexed0)" by code_simp
  have h1: "\<not> js_includes (toLowerCase (title (curated_music_entry blue_train))) ''coltrane''"
    by code_simp
  have h2: "\<not> js_includes (toLowerCase (description (curated_music_entry blue_train))) ''coltrane''"
    by code_simp
  have h3: "tags (curated_music_entry blue_train) = [''jazz'']" by code_simp
  have h3': "\<not> js_includes (toLowerCase ''jazz'') ''coltrane''" by code_simp
  have h4: "\<not> js_includes (toLowerCase (contentType (curated_music_entry blue_train))) ''coltrane''"
    by code_simp
  from curated_music_artist_not_scored [OF a, of blue_train indexed0] h1 h2 h3 h3' h4
  have "scoreItem (curated_music_entry blue_train) ''coltrane'' = 0
      \<and> curated_music_entry blue_train \<notin> item ` set (search ''Coltrane'' indexed0)"
    unfolding n by (simp add: js_includes_iff)
  with a b c d show ?thesis unfolding n by simp
qed


section \<open>The forward view class\<close>

text \<open>
  C2, as stated, fails: from the home route to \<open>/works\<close> the segment count grows from
  1 to 2, and the view class is not \<open>move-forward\<close>.
\<close>

theorem forward_class_from_home_counterexample:
  "previousRoute at_works = []
   \<and> currentRoute at_works = ''/works''
   \<and> length (js_split CHR ''/'' (currentRoute at_works))
       > length (js_split CHR ''/'' (previousRoute at_works))
   \<and> getViewClass at_works \<noteq> ''move-forward''"
  by code_simp

text \<open>
  C2, amended. The view class computed by \<open>getViewClass\<close> is \<open>move-forward\<close> if and
  only if the previous route is not the home route \<open>''\<close> and the count of
  \<open>/\<close>-separated segments of the current route is strictly greater than that of the
  previous route.
\<close>

theorem forward_class_iff:
  "getViewClass s = ''move-forward'' \<longleftrightarrow>
     previousRoute s \<noteq> []
   \<and> length (js_split CHR ''/'' (currentRoute s)) > length (js_split CHR ''/'' (previousRoute s))"
proof -
  have "currentRoute s = [] \<Longrightarrow>
        \<not> length (js_split CHR ''/'' (currentRoute s)) > length (js_split CHR ''/'' (previousRoute s))"
    by (simp add: js_split_length)
  then show ?thesis
    by (auto simp: getViewClass_def isForwardNavigation_def Let_def)
qed


theorem forward_class_iff_witness:
  "getViewClass (navigateTo window0 ''/works/personal'' True (Some ''left'') at_works)
     = ''move-forward''
   \<and> getViewClass
        (navigateTo window0 ''/works'' True None
          (navigateTo window0 ''/works/personal'' True (Some ''left'') at_works))
     \<noteq> ''move-forward''"
  using forward_class_iff [of "navigateTo window0 ''/works/personal'' True (Some ''left'') at_works"]
    forward_class_iff [of "navigateTo window0 ''/works'' True None
          (navigateTo window0 ''/works/personal'' True (Some ''left'') at_works)"]
  by (simp add: navigateTo_fields js_split_length at_works_def)


section \<open>Going back\<close>

text \<open>
  C7. From \<open>/works/curated/music\<close>, \<open>goBack\<close> navigates to the declared parent
  \<open>/works/curated\<close>. From the home route \<open>''\<close> it is not a no-op: it calls
  \<open>navigateTo('', true)\<close>, which appends \<open>''\<close> to the navigation history, pushes an
  entry onto the browser history and renders the home room again; the route remains
  \<open>''\<close>.
\<close>

theorem goBack_from_home_navigates:
  "map_option currentRoute (goBack window0 at_curated_music) = Some ''/works/curated''
   \<and> currentRoute home_loaded = []
   \<and> goBack window0 home_loaded = Some (navigateTo window0 [] True None home_loaded)
   \<and> goBack window0 home_loaded \<noteq> Some home_loaded
   \<and> map_option currentRoute (goBack window0 home_loaded) = Some []
   \<and> navigationHistory home_loaded = [[]]
   \<and> map_option navigationHistory (goBack window0 home_loaded) = Some [[], []]
   \<and> browserHistory home_loaded = []
   \<and> map_option browserHistory (goBack window0 home_loaded) = Some [''#'']
   \<and> map_option rendered (goBack window0 home_loaded) = Some (Room [] (map_of routes []))"
  by code_simp

theorem goBack_from_home_navigates_witness:
  "currentRoute home_loaded = [] \<and> goBack window0 home_loaded \<noteq> Some home_loaded"
  using goBack_from_home_navigates by blast


section \<open>Dynamic controller routes\<close>

text \<open>
  C1. \<open>handleControllerRoute\<close> would hand the route \<open>/photography/street\<close> to the
  photography controller with the collection \<open>street\<close>, and
  \<open>/works/curated/music/albums\<close> to the curated music controller; \<open>renderRoute\<close> never
  asks it, because neither route is in the route table: both end in the room-not-found
  panel.
\<close>

theorem dynamic_route_rendered_not_found:
  "handleControllerRoute window0 ''/photography/street'' =
     Some (Photography, CallRender (Some ''street''))
   \<and> rendered (renderRoute window0 ''/photography/street'' home_loaded) = NotFound
   \<and> handleControllerRoute window0 ''/works/curated/music/albums'' =
       Some (CuratedMusic, CallRender (Some ''albums''))
   \<and> rendered (navigateTo window0 ''/works/curated/music/albums'' True None at_curated_music)
       = NotFound"
  by code_simp


section \<open>Routes that are missing from the route table\<close>

text \<open>
  C8. The route \<open>constructor\<close> is not a key of the route table and matches no
  controller route. Reached through the address fragment or through \<open>navigateTo\<close>, it
  becomes the current route, and what is rendered is not the room-not-found panel but a
  room without walls, because the lookup in the route table finds the member of that
  name every object inherits.
\<close>

theorem inherited_member_route_rendered:
  "map_of routes ''constructor'' = None
   \<and> handleControllerRoute window0 ''constructor'' = None
   \<and> currentRoute (handleRoute window0 ''constructor'' home_loaded) = ''constructor''
   \<and> rendered (handleRoute window0 ''constructor'' home_loaded) = Room [] None
   \<and> rendered (navigateTo window0 ''constructor'' True None at_works) = Room [] None"
  by code_simp

theorem inherited_member_route_rendered_witness:
  "rendered (handleRoute window0 ''constructor'' home_loaded) \<noteq> NotFound
   \<and> rendered (navigateTo window0 ''constructor'' True None at_works) \<noteq> NotFound"
  using inherited_member_route_rendered by simp


section \<open>Escape in the search input\<close>

text \<open>
  C5. With the search surface just opened, so that the search input has the focus and no
  result is listed, the Escape key leaves the search surface open.
\<close>

theorem escape_ignored_without_results:
  "isSearchOpen search_opened
   \<and> currentResults search_opened = []
   \<and> keydown window0 escape_in_input search_opened = search_opened
   \<and> isSearchOpen (keydown window0 escape_in_input search_opened)"
  by code_simp

end
